theory Spec2Isabelle
  imports Complex_Main "HOL-Library.Stream"
begin

section \<open>Darcy-Weisbach friction factor: the Resolver and the Moody Sampler\<close>

text \<open>
  The development embeds \<^verbatim>\<open>ff\<close> and the data steps of \<^verbatim>\<open>plotMoody\<close>
  (file HW5SP25a.py) and \<^verbatim>\<open>calculate_friction_factor\<close> (file HW5SP25b.py).

  Conventions of the embedding.
  \<^item> Python floats are read as real numbers; a float operation that yields
    \<^verbatim>\<open>nan\<close> or \<^verbatim>\<open>inf\<close> has no real value and is \<open>None\<close>.
  \<^item> A raised exception is a value \<open>Inl e\<close>; a returned number is \<open>Inr x\<close>.
  \<^item> \<^verbatim>\<open>scipy.optimize.fsolve\<close> and \<^verbatim>\<open>random.normalvariate\<close> are
    library routines outside the repository. They are parameters of the embedded functions:
    \<open>fsolve func x0\<close> stands for \<^verbatim>\<open>fsolve(func, x0)[0]\<close>, the single
    component of the array returned for a scalar start value, and
    \<open>normalvariate mu sigma g\<close> returns the variate together with the advanced state of
    the process-wide generator \<open>g\<close>.
  \<^item> The Reynolds number, \<^verbatim>\<open>Re\<close> in the source, is written \<open>Rey\<close>:
    in HOL the name \<open>Re\<close> is the real part of a complex number.
\<close>

subsection \<open>Errors and library interfaces\<close>

datatype py_error = ZeroDivisionError

type_synonym residual = "real \<Rightarrow> real option"

type_synonym solver = "residual \<Rightarrow> real \<Rightarrow> real"

type_synonym 'g sampler = "real \<Rightarrow> real \<Rightarrow> 'g \<Rightarrow> real \<times> 'g"

text \<open>
  Python's true division \<^verbatim>\<open>a / b\<close> on floats: a zero divisor raises. (On numpy
  floats, which \<^verbatim>\<open>plotMoody\<close> passes to \<^verbatim>\<open>ff\<close>, a zero divisor yields
  \<^verbatim>\<open>inf\<close> with a warning instead; the sequences of \<^verbatim>\<open>plotMoody\<close> hold no zero.)
\<close>

definition py_div :: "real \<Rightarrow> real \<Rightarrow> py_error + real" where
  "py_div a b = (if b = 0 then Inl ZeroDivisionError else Inr (a / b))"

subsection \<open>HW5SP25a.ff\<close>

text \<open>
  The Colebrook residual, the lambda \<^verbatim>\<open>cb\<close> of \<^verbatim>\<open>ff\<close>:
  \<^verbatim>\<open>1 / np.sqrt(f) + 2.0 * np.log10(rr / 3.7 + 2.51 / (Re * np.sqrt(f)))\<close>.
  numpy does not raise here; the value is finite exactly when \<open>f\<close> is positive, \<open>Rey\<close> is
  not zero and the argument of the logarithm is positive.
\<close>

definition cb :: "real \<Rightarrow> real \<Rightarrow> residual" where
  "cb Rey rr f =
     (if f \<le> 0 \<or> Rey = 0 \<or> rr / 3.7 + 2.51 / (Rey * sqrt f) \<le> 0 then None
      else Some (1 / sqrt f + 2.0 * log 10 (rr / 3.7 + 2.51 / (Rey * sqrt f))))"

definition ff :: "solver \<Rightarrow> real \<Rightarrow> real \<Rightarrow> bool \<Rightarrow> py_error + real" where
  "ff fsolve Rey rr CBEQN =
     (if CBEQN then Inr (fsolve (cb Rey rr) 0.02)
      else py_div 64 Rey)"

subsection \<open>HW5SP25b.calculate\_friction\_factor\<close>

text \<open>The interpolated mean and the spread of the transition branch (lines 41 and 42).\<close>

definition mu_f :: "real \<Rightarrow> real \<Rightarrow> real \<Rightarrow> real" where
  "mu_f f_lam f_CB Rey = f_lam + (f_CB - f_lam) * ((Rey - 2000) / 2000)"

definition sigma_f :: "real \<Rightarrow> real" where
  "sigma_f mu = 0.2 * mu"

definition calculate_friction_factor ::
    "solver \<Rightarrow> 'g sampler \<Rightarrow> real \<Rightarrow> real \<Rightarrow> 'g \<Rightarrow> (py_error + real) \<times> 'g" where
  "calculate_friction_factor fsolve normalvariate Rey rr g =
     (if Rey \<ge> 4000 then (ff fsolve Rey rr True, g)
      else if Rey \<le> 2000 then (py_div 64 Rey, g)
      else
        (case ff fsolve Rey rr True of
           Inl e \<Rightarrow> (Inl e, g)
         | Inr f_CB \<Rightarrow>
            (case py_div 64 Rey of
               Inl e \<Rightarrow> (Inl e, g)
             | Inr f_lam \<Rightarrow>
                (case normalvariate (mu_f f_lam f_CB Rey) (sigma_f (mu_f f_lam f_CB Rey)) g of
                   (x, g') \<Rightarrow> (Inr x, g')))))"

subsection \<open>HW5SP25a.plotMoody: the data series (steps 1 to 3)\<close>

text \<open>
  \<^verbatim>\<open>np.linspace(start, stop, num)\<close> for \<open>num \<ge> 2\<close>: \<open>num\<close> evenly spaced
  samples, the first \<open>start\<close>, the last \<open>stop\<close>;
  \<^verbatim>\<open>np.logspace(start, stop, num)\<close> raises \<open>10\<close> to each of them.
\<close>

definition linspace :: "real \<Rightarrow> real \<Rightarrow> nat \<Rightarrow> real list" where
  "linspace start stop num =
     map (\<lambda>i. start + real i * ((stop - start) / real (num - 1))) [0..<num]"

definition logspace :: "real \<Rightarrow> real \<Rightarrow> nat \<Rightarrow> real list" where
  "logspace start stop num = map (\<lambda>y. 10 powr y) (linspace start stop num)"

definition ReValsCB :: "real list" where
  "ReValsCB = logspace (log 10 4000) (log 10 100000000) 100"

definition ReValsL :: "real list" where
  "ReValsL = logspace (log 10 600) (log 10 2000) 20"

definition ReValsTrans :: "real list" where
  "ReValsTrans = logspace (log 10 2000) (log 10 4000) 20"

definition rrVals :: "real list" where
  "rrVals = [0, 0.000001, 0.000005, 0.00001, 0.00005, 0.0001, 0.0002, 0.0004, 0.0006, 0.0008,
             0.001, 0.002, 0.004, 0.006, 0.008, 0.015, 0.02, 0.03, 0.04, 0.05]"

text \<open>
  A list comprehension \<^verbatim>\<open>[f(x) for x in xs]\<close> whose body may raise: the calls are
  made in order, once per element, and the first exception ends the comprehension.
\<close>

fun list_comp :: "('a \<Rightarrow> py_error + 'b) \<Rightarrow> 'a list \<Rightarrow> py_error + 'b list" where
  "list_comp f [] = Inr []"
| "list_comp f (x # xs) =
     (case f x of
        Inl e \<Rightarrow> Inl e
      | Inr y \<Rightarrow> (case list_comp f xs of Inl e \<Rightarrow> Inl e | Inr ys \<Rightarrow> Inr (y # ys)))"

record moody_series =
  ffLam :: "real list"
  ffTrans :: "real list"
  ffCB :: "real list list"

definition plotMoody_series :: "solver \<Rightarrow> py_error + moody_series" where
  "plotMoody_series fsolve =
     (case list_comp (\<lambda>Rey. ff fsolve Rey 0 False) ReValsL of
        Inl e \<Rightarrow> Inl e
      | Inr lamv \<Rightarrow>
         (case list_comp (\<lambda>Rey. ff fsolve Rey 0 False) ReValsTrans of
            Inl e \<Rightarrow> Inl e
          | Inr transv \<Rightarrow>
             (case list_comp (\<lambda>relRough. list_comp (\<lambda>Rey. ff fsolve Rey relRough True) ReValsCB)
                     rrVals of
                Inl e \<Rightarrow> Inl e
              | Inr cbv \<Rightarrow> Inr \<lparr>ffLam = lamv, ffTrans = transv, ffCB = cbv\<rparr>)))"

subsection \<open>Concrete stand-ins for the library routines\<close>

text \<open>
  A root-finder that hands back its start value, as one that made no progress does.
\<close>

definition seed_solver :: solver where
  "seed_solver func x0 = x0"

text \<open>
  A root-finder that makes no progress, and hands back its start value, where the residual
  at the start value is undefined or lies below a threshold, and that delivers the value
  \<open>c\<close> elsewhere. (A step from the start value \<open>x0\<close> along a falling slope \<open>s\<close>
  ends at \<open>x0 - r / s\<close>, which is negative, outside the domain of the residual, once
  the residual \<open>r\<close> at \<open>x0\<close> is below \<open>s * x0\<close>.)
\<close>

definition stalling_solver :: "real \<Rightarrow> real \<Rightarrow> solver" where
  "stalling_solver threshold c func x0 =
     (case func x0 of
        None \<Rightarrow> x0
      | Some r \<Rightarrow> if r < threshold then x0 else c)"

text \<open>
  A normal variate in location-scale form, \<^verbatim>\<open>mu + z * sigma\<close>, which is how
  Python's \<^verbatim>\<open>random.normalvariate\<close> builds its result from a standard-normal
  variate \<open>z\<close>. The generator is represented by the stream of standard-normal variates
  it is going to produce.
\<close>

definition gauss_normalvariate :: "real stream sampler" where
  "gauss_normalvariate mu sigma zs = (mu + shd zs * sigma, stl zs)"

section \<open>Properties of the Resolver\<close>

text \<open>
  Claim C2. For every \<open>Rey\<close> with \<open>0 < Rey \<le> 2000\<close> the Resolver returns exactly
  \<open>64 / Rey\<close>, both when the laminar regime is found by classification
  (\<open>calculate_friction_factor\<close>) and when it is forced (\<open>ff\<close> with \<open>CBEQN = False\<close>);
  the roughness \<open>rr\<close>, the root-finder and the random generator have no influence on the
  result, and the generator is left as it was.
\<close>

theorem laminar_exact:
  assumes "0 < Rey" and "Rey \<le> 2000"
  shows "calculate_friction_factor fsolve normalvariate Rey rr g = (Inr (64 / Rey), g)
       \<and> ff fsolve Rey rr False = Inr (64 / Rey)"
  using assms by (simp add: calculate_friction_factor_def ff_def py_div_def)

theorem laminar_exact_witness:
  "(0::real) < 1000 \<and> (1000::real) \<le> 2000
   \<and> calculate_friction_factor seed_solver gauss_normalvariate 1000 0.05 (sconst 0)
       = (Inr 0.064, sconst 0)
   \<and> ff seed_solver 1000 0.01 False = Inr 0.064"
  using laminar_exact [of 1000 seed_solver gauss_normalvariate "0.05" "sconst 0"]
    laminar_exact [of 1000 seed_solver gauss_normalvariate "0.01" "sconst 0"]
  by simp

subsection \<open>Shape of the result in each branch\<close>

lemma ff_turbulent: "ff fsolve Rey rr True = Inr (fsolve (cb Rey rr) 0.02)"
  by (simp add: ff_def)

lemma resolver_turbulent:
  "4000 \<le> Rey \<Longrightarrow>
   calculate_friction_factor fsolve normalvariate Rey rr g = (Inr (fsolve (cb Rey rr) 0.02), g)"
  by (simp add: calculate_friction_factor_def ff_def)

lemma resolver_laminar:
  "Rey \<le> 2000 \<Longrightarrow>
   calculate_friction_factor fsolve normalvariate Rey rr g = (py_div 64 Rey, g)"
  by (simp add: calculate_friction_factor_def)

lemma resolver_transition:
  assumes "2000 < Rey" and "Rey < 4000"
  shows "calculate_friction_factor fsolve normalvariate Rey rr g =
     (Inr (fst (normalvariate (mu_f (64 / Rey) (fsolve (cb Rey rr) 0.02) Rey)
                   (sigma_f (mu_f (64 / Rey) (fsolve (cb Rey rr) 0.02) Rey)) g)),
      snd (normalvariate (mu_f (64 / Rey) (fsolve (cb Rey rr) 0.02) Rey)
                   (sigma_f (mu_f (64 / Rey) (fsolve (cb Rey rr) 0.02) Rey)) g))"
  using assms
  by (simp add: calculate_friction_factor_def ff_def py_div_def split: prod.split)

text \<open>
  Claim C3. For every unforced input with \<open>2000 < Rey < 4000\<close> the Resolver takes
  \<open>f_lam = 64 / Rey\<close> and \<open>f_turb\<close>, the result of the turbulent formula at the same
  \<open>(Rey, rr)\<close>, forms \<open>mu = f_lam + (f_turb - f_lam) * (Rey - 2000) / 2000\<close> and
  \<open>sigma = 0.2 * mu\<close>, and returns the variate that \<open>normalvariate mu sigma\<close> draws from
  the generator. With the location-scale generator the returned value is
  \<open>mu + z * sigma\<close> for the standard-normal variate \<open>z\<close> at the head of the stream.
\<close>

theorem transition_sample:
  assumes "2000 < Rey" and "Rey < 4000"
  shows "let f_lam = 64 / Rey;
             f_turb = fsolve (cb Rey rr) 0.02;
             mu = f_lam + (f_turb - f_lam) * (Rey - 2000) / 2000;
             sigma = 0.2 * mu
         in ff fsolve Rey rr True = Inr f_turb
          \<and> calculate_friction_factor fsolve normalvariate Rey rr g =
              (Inr (fst (normalvariate mu sigma g)), snd (normalvariate mu sigma g))
          \<and> calculate_friction_factor fsolve gauss_normalvariate Rey rr zs =
              (Inr (mu + shd zs * sigma), stl zs)"
  using assms
  by (simp add: resolver_transition ff_turbulent mu_f_def sigma_f_def gauss_normalvariate_def
      Let_def)

theorem transition_sample_witness:
  "(2000::real) < 3000 \<and> (3000::real) < 4000
   \<and> ff seed_solver 3000 0 True = Inr 0.02
   \<and> calculate_friction_factor seed_solver gauss_normalvariate 3000 0 (sconst 1)
       = (Inr (0.0248), sconst 1)"
  using transition_sample [of 3000 seed_solver 0 gauss_normalvariate "sconst 1" "sconst 1"]
  by (simp add: seed_solver_def gauss_normalvariate_def Let_def)

text \<open>
  Claim C4, as stated: every input with \<open>Rey \<le> 0\<close> or with \<open>rr\<close> outside
  \<open>[0, 0.05]\<close> is rejected with a domain error. The Resolver has no such guard:
  at \<open>Rey = -1\<close> it returns the number \<open>-64\<close>, and at \<open>Rey = 1000\<close> with \<open>rr = 1\<close>
  it returns \<open>0.064\<close>.
\<close>

theorem invalid_input_counterexample:
  "fst (calculate_friction_factor seed_solver gauss_normalvariate (-1) 0 (sconst 0)) = Inr (-64)
   \<and> fst (calculate_friction_factor seed_solver gauss_normalvariate 1000 1 (sconst 0)) = Inr 0.064"
  by (simp add: calculate_friction_factor_def py_div_def)

text \<open>
  Claim C4, amended. The Resolver checks neither \<open>Rey\<close> nor \<open>rr\<close>. Its only failure
  is the \<open>ZeroDivisionError\<close> of the laminar division at \<open>Rey = 0\<close>; at every other
  input it returns a number: \<open>64 / Rey\<close> for \<open>Rey \<le> 2000\<close> (negative \<open>Rey\<close>
  included) whatever \<open>rr\<close> is, and the root-finder's value for \<open>Rey \<ge> 4000\<close> whatever
  \<open>rr\<close> is.
\<close>

theorem no_domain_guard:
  "((\<exists>e. fst (calculate_friction_factor fsolve normalvariate Rey rr g) = Inl e) \<longleftrightarrow> Rey = 0)
   \<and> (Rey = 0 \<longrightarrow>
        calculate_friction_factor fsolve normalvariate Rey rr g = (Inl ZeroDivisionError, g))
   \<and> (Rey \<le> 2000 \<and> Rey \<noteq> 0 \<longrightarrow>
        calculate_friction_factor fsolve normalvariate Rey rr g = (Inr (64 / Rey), g))
   \<and> (4000 \<le> Rey \<longrightarrow>
        calculate_friction_factor fsolve normalvariate Rey rr g
          = (Inr (fsolve (cb Rey rr) 0.02), g))"
proof -
  consider "Rey \<le> 2000" | "2000 < Rey" "Rey < 4000" | "4000 \<le> Rey"
    by linarith
  then show ?thesis
  proof cases
    case 1
    then show ?thesis
      by (simp add: resolver_laminar py_div_def)
  next
    case 2
    then show ?thesis
      by (simp add: resolver_transition)
  next
    case 3
    then show ?thesis
      by (simp add: resolver_turbulent)
  qed
qed

theorem no_domain_guard_witness:
  "calculate_friction_factor seed_solver gauss_normalvariate 0 0 (sconst 0)
     = (Inl ZeroDivisionError, sconst 0)
   \<and> calculate_friction_factor seed_solver gauss_normalvariate (-2) 7 (sconst 0)
     = (Inr (-32), sconst 0)
   \<and> calculate_friction_factor seed_solver gauss_normalvariate 5000 (-1) (sconst 0)
     = (Inr 0.02, sconst 0)"
  using no_domain_guard [of seed_solver gauss_normalvariate 0 0 "sconst 0"]
    no_domain_guard [of seed_solver gauss_normalvariate "-2" 7 "sconst 0"]
    no_domain_guard [of seed_solver gauss_normalvariate 5000 "-1" "sconst 0"]
  by (simp add: seed_solver_def)

subsection \<open>The residual at the start value\<close>

lemma sqrt_seed_bounds: "0.14 \<le> sqrt (0.02::real) \<and> sqrt (0.02::real) \<le> 1 / 7"
proof
  have "sqrt ((0.14::real)\<^sup>2) \<le> sqrt 0.02"
    by (rule real_sqrt_le_mono) (simp add: power2_eq_square)
  then show "0.14 \<le> sqrt (0.02::real)" by simp
  have "sqrt (0.02::real) \<le> sqrt ((1 / 7)\<^sup>2)"
    by (rule real_sqrt_le_mono) (simp add: power2_eq_square)
  then show "sqrt (0.02::real) \<le> 1 / 7" by simp
qed

lemma inverse_sqrt_seed_bounds: "7 \<le> 1 / sqrt (0.02::real) \<and> 1 / sqrt (0.02::real) \<le> 50 / 7"
proof -
  have "0 < sqrt (0.02::real)" by simp
  then show ?thesis
    using sqrt_seed_bounds by (simp add: field_simps)
qed

lemma log10_upper:
  fixes x :: real
  assumes "0 < x" and "0 < q" and "x ^ q \<le> 1 / 10 ^ p"
  shows "log 10 x \<le> - (real p / real q)"
proof -
  have "log 10 (x ^ q) \<le> log 10 (1 / 10 ^ p)"
    using assms by (subst log_le_cancel_iff) simp_all
  moreover have "log 10 (x ^ q) = real q * log 10 x"
    using assms by (simp add: log_nat_power)
  moreover have "log 10 (1 / 10 ^ p :: real) = - real p"
    by (simp add: log_divide)
  ultimately have "real q * log 10 x \<le> - real p" by simp
  then show ?thesis
    using assms(2) by (simp add: field_simps)
qed

lemma log10_lower:
  fixes x :: real
  assumes "0 < x" and "0 < q" and "1 / 10 ^ p \<le> x ^ q"
  shows "- (real p / real q) \<le> log 10 x"
proof -
  have "log 10 (1 / 10 ^ p) \<le> log 10 (x ^ q)"
    using assms by (subst log_le_cancel_iff) simp_all
  moreover have "log 10 (x ^ q) = real q * log 10 x"
    using assms by (simp add: log_nat_power)
  moreover have "log 10 (1 / 10 ^ p :: real) = - real p"
    by (simp add: log_divide)
  ultimately have "- real p \<le> real q * log 10 x" by simp
  then show ?thesis
    using assms(2) by (simp add: field_simps)
qed

text \<open>The residual at the start value 0.02, from bounds on the argument of the logarithm.\<close>

lemma cb_seed_upper:
  assumes "0 < Rey" and "0 \<le> rr" and "0 < q"
    and "(rr / 3.7 + 2.51 / (Rey * (7 / 50))) ^ q \<le> 1 / 10 ^ p"
  shows "\<exists>r. cb Rey rr 0.02 = Some r \<and> r \<le> 50 / 7 - 2 * (real p / real q)"
proof -
  let ?s = "sqrt (0.02::real)"
  let ?a = "rr / 3.7 + 2.51 / (Rey * ?s)"
  have s: "0 < ?s" "7 / 50 \<le> ?s" using sqrt_seed_bounds by simp_all
  have pos: "0 < 2.51 / (Rey * ?s)" using assms(1) s(1) by simp
  then have a_pos: "0 < ?a" using assms(2) by (simp add: add_nonneg_pos)
  have "2.51 / (Rey * ?s) \<le> 2.51 / (Rey * (7 / 50))"
    using assms(1) s by (intro divide_left_mono mult_left_mono) simp_all
  then have "?a \<le> rr / 3.7 + 2.51 / (Rey * (7 / 50))" by simp
  then have "?a ^ q \<le> (rr / 3.7 + 2.51 / (Rey * (7 / 50))) ^ q"
    using a_pos by (intro power_mono) simp_all
  with assms(4) have "?a ^ q \<le> 1 / 10 ^ p" by linarith
  then have "log 10 ?a \<le> - (real p / real q)"
    using a_pos assms(3) by (intro log10_upper)
  moreover have "1 / ?s \<le> 50 / 7" using inverse_sqrt_seed_bounds by simp
  ultimately have "1 / ?s + 2.0 * log 10 ?a \<le> 50 / 7 - 2 * (real p / real q)" by simp
  moreover have "cb Rey rr 0.02 = Some (1 / ?s + 2.0 * log 10 ?a)"
    using a_pos assms(1) by (simp add: cb_def)
  ultimately show ?thesis by blast
qed

lemma cb_seed_lower:
  assumes "0 < Rey" and "0 \<le> rr" and "0 < q"
    and "1 / 10 ^ p \<le> (rr / 3.7 + 2.51 / (Rey * (1 / 7))) ^ q"
  shows "\<exists>r. cb Rey rr 0.02 = Some r \<and> 7 - 2 * (real p / real q) \<le> r"
proof -
  let ?s = "sqrt (0.02::real)"
  let ?a = "rr / 3.7 + 2.51 / (Rey * ?s)"
  have s: "0 < ?s" "?s \<le> 1 / 7" using sqrt_seed_bounds by simp_all
  have pos: "0 < 2.51 / (Rey * ?s)" using assms(1) s(1) by simp
  then have a_pos: "0 < ?a" using assms(2) by (simp add: add_nonneg_pos)
  have "2.51 / (Rey * (1 / 7)) \<le> 2.51 / (Rey * ?s)"
    using assms(1) s by (intro divide_left_mono mult_left_mono) simp_all
  then have le: "rr / 3.7 + 2.51 / (Rey * (1 / 7)) \<le> ?a" by simp
  have "0 \<le> rr / 3.7 + 2.51 / (Rey * (1 / 7))"
    using assms(1,2) by simp
  then have "(rr / 3.7 + 2.51 / (Rey * (1 / 7))) ^ q \<le> ?a ^ q"
    using le by (intro power_mono) simp_all
  with assms(4) have "1 / 10 ^ p \<le> ?a ^ q" by linarith
  then have "- (real p / real q) \<le> log 10 ?a"
    using a_pos assms(3) by (intro log10_lower)
  moreover have "7 \<le> 1 / ?s" using inverse_sqrt_seed_bounds by simp
  ultimately have "7 - 2 * (real p / real q) \<le> 1 / ?s + 2.0 * log 10 ?a" by simp
  moreover have "cb Rey rr 0.02 = Some (1 / ?s + 2.0 * log 10 ?a)"
    using a_pos assms(1) by (simp add: cb_def)
  ultimately show ?thesis by blast
qed

lemma seed_residual_1e8: "\<exists>r. cb 100000000 0 0.02 = Some r \<and> r \<le> - 4"
  using cb_seed_upper [of 100000000 0 1 6] by auto

lemma seed_residual_1e7_smooth: "\<exists>r. cb 10000000 0.000001 0.02 = Some r \<and> r < - 3.8"
  using cb_seed_upper [of 10000000 "0.000001" 2 11] by (auto simp: power2_eq_square)

lemma seed_residual_1e7_rough:
  "\<exists>r. cb 10000000 0.00001 0.02 = Some r \<and> - 3.8 \<le> r \<and> r \<le> - 2"
proof -
  obtain r1 where r1: "cb 10000000 0.00001 0.02 = Some r1" "r1 \<le> 50 / 7 - 2 * (real 5 / real 1)"
    using cb_seed_upper [of 10000000 "0.00001" 1 5] by auto
  obtain r2 where r2: "cb 10000000 0.00001 0.02 = Some r2" "7 - 2 * (real 27 / real 5) \<le> r2"
    using cb_seed_lower [of 10000000 "0.00001" 5 27] by (auto simp: power_def)
  from r1 r2 have "r1 = r2" by simp
  with r1 r2 show ?thesis by auto
qed

lemma stalling_solver_stalls:
  "func x0 = Some r \<Longrightarrow> r < threshold \<Longrightarrow> stalling_solver threshold c func x0 = x0"
  by (simp add: stalling_solver_def)

lemma stalling_solver_delivers:
  "func x0 = Some r \<Longrightarrow> threshold \<le> r \<Longrightarrow> stalling_solver threshold c func x0 = c"
  by (simp add: stalling_solver_def)

text \<open>
  Claim C5, as stated: when the root-finder has not brought the residual below its
  tolerance, the Resolver reports a failure instead of a number. At \<open>Rey = 10\<^sup>8\<close>,
  \<open>rr = 0\<close> the root-finder hands back its start value \<open>0.02\<close>; the Colebrook residual
  there is \<open>-4\<close> or less, and the Resolver returns \<open>0.02\<close> as its result.
\<close>

theorem non_convergence_counterexample:
  "cb 100000000 0 0.02
     = Some (1 / sqrt 0.02 + 2.0 * log 10 (0 / 3.7 + 2.51 / (100000000 * sqrt 0.02)))
   \<and> 4 \<le> \<bar>1 / sqrt (0.02::real) + 2.0 * log 10 (0 / 3.7 + 2.51 / (100000000 * sqrt 0.02))\<bar>
   \<and> ff seed_solver 100000000 0 True = Inr 0.02
   \<and> calculate_friction_factor seed_solver gauss_normalvariate 100000000 0 (sconst 0)
       = (Inr 0.02, sconst 0)"
proof -
  have e: "cb 100000000 0 0.02
      = Some (1 / sqrt 0.02 + 2.0 * log 10 (0 / 3.7 + 2.51 / (100000000 * sqrt 0.02)))"
    by (simp add: cb_def)
  with seed_residual_1e8 have
    "1 / sqrt (0.02::real) + 2.0 * log 10 (0 / 3.7 + 2.51 / (100000000 * sqrt 0.02)) \<le> - 4"
    by auto
  then have
    "4 \<le> \<bar>1 / sqrt (0.02::real) + 2.0 * log 10 (0 / 3.7 + 2.51 / (100000000 * sqrt 0.02))\<bar>"
    by linarith
  moreover have "ff seed_solver 100000000 0 True = Inr 0.02"
    by (simp add: ff_def seed_solver_def)
  moreover have
    "calculate_friction_factor seed_solver gauss_normalvariate 100000000 0 (sconst 0)
       = (Inr 0.02, sconst 0)"
    by (simp add: resolver_turbulent seed_solver_def)
  ultimately show ?thesis using e by blast
qed

text \<open>
  Claim C5, amended. The Resolver passes on whatever number the root-finder delivers,
  converged or not: a forced-turbulent call and a call with \<open>Rey \<ge> 4000\<close> always return
  that number, no call of the turbulent path ends in a failure, and in the transition band
  the call ends in a number as well.
\<close>

theorem solver_value_passed_on:
  "ff fsolve Rey rr True = Inr (fsolve (cb Rey rr) 0.02)
   \<and> (4000 \<le> Rey \<longrightarrow>
        fst (calculate_friction_factor fsolve normalvariate Rey rr g)
          = Inr (fsolve (cb Rey rr) 0.02))
   \<and> (2000 < Rey \<longrightarrow>
        (\<exists>x. fst (calculate_friction_factor fsolve normalvariate Rey rr g) = Inr x))"
proof -
  have "\<exists>x. fst (calculate_friction_factor fsolve normalvariate Rey rr g) = Inr x"
    if "2000 < Rey"
  proof (cases "Rey < 4000")
    case True
    with that show ?thesis by (simp add: resolver_transition)
  next
    case False
    then show ?thesis by (simp add: resolver_turbulent)
  qed
  then show ?thesis
    by (simp add: ff_turbulent resolver_turbulent)
qed

theorem solver_value_passed_on_witness:
  "ff seed_solver 100000000 0 True = Inr 0.02
   \<and> fst (calculate_friction_factor seed_solver gauss_normalvariate 100000000 0 (sconst 0))
       = Inr 0.02"
  using solver_value_passed_on [of seed_solver 100000000 0 gauss_normalvariate "sconst 0"]
  by (simp add: seed_solver_def)

text \<open>
  Claim C10. Outside the transition band the Resolver is deterministic and leaves the
  random generator alone: for \<open>Rey \<le> 2000\<close> or \<open>Rey \<ge> 4000\<close> the result is the same
  whatever the sampler and the generator state are, and the generator state comes back
  unchanged. For \<open>2000 < Rey < 4000\<close> the generator state that comes back is the one left
  by the single call of \<open>normalvariate\<close>.
\<close>

theorem deterministic_outside_transition:
  "(Rey \<le> 2000 \<or> 4000 \<le> Rey \<longrightarrow>
      fst (calculate_friction_factor fsolve normalvariate Rey rr g)
        = fst (calculate_friction_factor fsolve normalvariate' Rey rr g')
      \<and> snd (calculate_friction_factor fsolve normalvariate Rey rr g) = g)
   \<and> (2000 < Rey \<and> Rey < 4000 \<longrightarrow>
      snd (calculate_friction_factor fsolve normalvariate Rey rr g)
        = snd (normalvariate (mu_f (64 / Rey) (fsolve (cb Rey rr) 0.02) Rey)
                 (sigma_f (mu_f (64 / Rey) (fsolve (cb Rey rr) 0.02) Rey)) g))"
proof (intro conjI impI)
  assume "Rey \<le> 2000 \<or> 4000 \<le> Rey"
  then show "fst (calculate_friction_factor fsolve normalvariate Rey rr g)
        = fst (calculate_friction_factor fsolve normalvariate' Rey rr g')"
    by (auto simp: resolver_laminar resolver_turbulent)
next
  assume "Rey \<le> 2000 \<or> 4000 \<le> Rey"
  then show "snd (calculate_friction_factor fsolve normalvariate Rey rr g) = g"
    by (auto simp: resolver_laminar resolver_turbulent)
next
  assume "2000 < Rey \<and> Rey < 4000"
  then show "snd (calculate_friction_factor fsolve normalvariate Rey rr g)
        = snd (normalvariate (mu_f (64 / Rey) (fsolve (cb Rey rr) 0.02) Rey)
                 (sigma_f (mu_f (64 / Rey) (fsolve (cb Rey rr) 0.02) Rey)) g)"
    by (simp add: resolver_transition)
qed

theorem deterministic_outside_transition_witness:
  "fst (calculate_friction_factor seed_solver gauss_normalvariate 5000 0.01 (sconst 1))
     = fst (calculate_friction_factor seed_solver gauss_normalvariate 5000 0.01 (sconst 2))
   \<and> snd (calculate_friction_factor seed_solver gauss_normalvariate 5000 0.01 (sconst 1))
     = sconst 1
   \<and> snd (calculate_friction_factor seed_solver gauss_normalvariate 1500 0.01 (sconst 1))
     = sconst 1
   \<and> snd (calculate_friction_factor seed_solver gauss_normalvariate 3000 0.01 (1 ## sconst 2))
     = sconst 2"
  using
    deterministic_outside_transition [of 5000 seed_solver gauss_normalvariate "0.01" "sconst 1"
      gauss_normalvariate "sconst 2"]
    deterministic_outside_transition [of 1500 seed_solver gauss_normalvariate "0.01" "sconst 1"
      gauss_normalvariate "sconst 2"]
    deterministic_outside_transition [of 3000 seed_solver gauss_normalvariate "0.01"
      "1 ## sconst 2" gauss_normalvariate "sconst 2"]
  by (simp add: gauss_normalvariate_def)

subsection \<open>Sign of the result\<close>

lemma mu_f_pos:
  assumes "0 < f_lam" and "0 < f_CB" and "2000 < Rey" and "Rey < 4000"
  shows "0 < mu_f f_lam f_CB Rey"
proof -
  define t where "t = (Rey - 2000) / 2000"
  have t: "0 < t" "t < 1" using assms by (simp_all add: t_def)
  have "mu_f f_lam f_CB Rey = f_lam * (1 - t) + f_CB * t"
    unfolding mu_f_def t_def [symmetric] by (simp add: algebra_simps)
  moreover have "0 < f_lam * (1 - t)" using assms t by simp
  moreover have "0 < f_CB * t" using assms t by simp
  ultimately show ?thesis by simp
qed

lemma gauss_sample_pos:
  assumes "0 < mu"
  shows "0 < mu + z * sigma_f mu \<longleftrightarrow> - 5 < z"
proof -
  have "mu + z * sigma_f mu = mu * (1 + 0.2 * z)"
    by (simp add: sigma_f_def algebra_simps)
  then have "0 < mu + z * sigma_f mu \<longleftrightarrow> 0 < 1 + 0.2 * z"
    using assms by (simp add: zero_less_mult_iff)
  then show ?thesis by auto
qed

lemma resolver_transition_gauss:
  assumes "2000 < Rey" and "Rey < 4000" and "fsolve (cb Rey rr) 0.02 = c"
  shows "calculate_friction_factor fsolve gauss_normalvariate Rey rr zs =
     (Inr (mu_f (64 / Rey) c Rey + shd zs * sigma_f (mu_f (64 / Rey) c Rey)), stl zs)"
  using assms by (simp add: resolver_transition gauss_normalvariate_def)

lemma cb_defined_pos: "cb Rey rr f \<noteq> None \<Longrightarrow> 0 < f"
  by (auto simp: cb_def split: if_splits)

lemma root_at_2510: "cb 2510 0.0222 (1 / 16) = Some 0"
proof -
  have sq: "sqrt (1 / 16 :: real) = 1 / 4"
    using real_sqrt_abs2 [of "1 / 4"] by (simp add: real_sqrt_divide)
  have lg: "log 10 (1 / 100 :: real) = - 2"
    using log_pow_cancel [of 10 2] by (simp add: log_divide)
  have arg: "0.0222 / 3.7 + 2.51 / (2510 * (1 / 4)) = (1 / 100 :: real)"
    by simp
  show ?thesis
    unfolding cb_def sq arg lg by simp
qed

lemma root_at_150600: "cb 150600 0.00333 (1 / 36) = Some 0"
proof -
  have sq: "sqrt (1 / 36 :: real) = 1 / 6"
    using real_sqrt_abs2 [of "1 / 6"] by (simp add: real_sqrt_divide)
  have lg: "log 10 (1 / 1000 :: real) = - 3"
    using log_pow_cancel [of 10 3] by (simp add: log_divide)
  have arg: "0.00333 / 3.7 + 2.51 / (150600 * (1 / 6)) = (1 / 1000 :: real)"
    by simp
  show ?thesis
    unfolding cb_def sq arg lg by simp
qed

lemma solver_at_2510:
  "stalling_solver (- 3.8) (1 / 16) (cb 2510 0.0222) 0.02 = 1 / 16"
proof -
  obtain r where "cb 2510 0.0222 0.02 = Some r" "7 - 2 * (real 3 / real 1) \<le> r"
    using cb_seed_lower [of 2510 "0.0222" 1 3] by auto
  then show ?thesis
    by (intro stalling_solver_delivers [of _ _ r]) simp_all
qed

lemma solver_at_150600:
  "stalling_solver (- 3.8) (1 / 36) (cb 150600 0.00333) 0.02 = 1 / 36"
proof -
  obtain r where "cb 150600 0.00333 0.02 = Some r" "7 - 2 * (real 4 / real 1) \<le> r"
    using cb_seed_lower [of 150600 "0.00333" 1 4] by auto
  then show ?thesis
    by (intro stalling_solver_delivers [of _ _ r]) simp_all
qed

text \<open>
  Claim C6, as stated: for every valid input (\<open>Rey > 0\<close>, \<open>rr\<close> in \<open>[0, 0.05]\<close>) the
  returned friction factor is strictly positive in every regime, the transition branch
  included. At \<open>Rey = 2510\<close>, \<open>rr = 0.0222\<close> the Colebrook equation has the exact root
  \<open>1 / 16\<close>; with the root-finder delivering it and a standard-normal variate of \<open>-6\<close>
  the transition branch returns \<open>- 140293 / 20080000\<close>, a negative number.
\<close>

theorem transition_negative_counterexample:
  "cb 2510 0.0222 (1 / 16) = Some 0
   \<and> ff (stalling_solver (- 3.8) (1 / 16)) 2510 0.0222 True = Inr (1 / 16)
   \<and> fst (calculate_friction_factor (stalling_solver (- 3.8) (1 / 16)) gauss_normalvariate
            2510 0.0222 (sconst (- 6)))
       = Inr (- 140293 / 20080000)"
proof -
  let ?S = "stalling_solver (- 3.8) (1 / 16)"
  have "ff ?S 2510 0.0222 True = Inr (1 / 16)"
    unfolding ff_turbulent solver_at_2510 ..
  moreover have
    "fst (calculate_friction_factor ?S gauss_normalvariate 2510 0.0222 (sconst (- 6)))
       = Inr (- 140293 / 20080000)"
    using solver_at_2510
      resolver_transition_gauss [of 2510 "stalling_solver (- 3.8) (1 / 16)" "0.0222" "1 / 16"
        "sconst (- 6)"]
    by (simp add: mu_f_def sigma_f_def)
  ultimately show ?thesis
    using root_at_2510 by blast
qed

text \<open>
  Claim C6, amended. For every valid input the returned friction factor is strictly
  positive in the laminar regime (\<open>0 < Rey \<le> 2000\<close>), and in the turbulent regime
  (\<open>Rey \<ge> 4000\<close>) whenever the Colebrook residual has a value at the number the
  root-finder delivers. In the transition band (\<open>2000 < Rey < 4000\<close>), under the same
  condition, the mean \<open>mu\<close> is strictly positive, and the sample \<open>mu + z * sigma\<close> that is
  returned is strictly positive exactly when the standard-normal variate \<open>z\<close> that is
  drawn exceeds \<open>-5\<close>.
\<close>

theorem friction_factor_sign:
  assumes "0 < Rey"
  shows "(Rey \<le> 2000 \<longrightarrow>
           (\<exists>x. fst (calculate_friction_factor fsolve normalvariate Rey rr g) = Inr x \<and> 0 < x))
       \<and> (4000 \<le> Rey \<and> cb Rey rr (fsolve (cb Rey rr) 0.02) \<noteq> None \<longrightarrow>
           (\<exists>x. fst (calculate_friction_factor fsolve normalvariate Rey rr g) = Inr x \<and> 0 < x))
       \<and> (2000 < Rey \<and> Rey < 4000 \<and> cb Rey rr (fsolve (cb Rey rr) 0.02) \<noteq> None \<longrightarrow>
           0 < mu_f (64 / Rey) (fsolve (cb Rey rr) 0.02) Rey
           \<and> (\<exists>x. fst (calculate_friction_factor fsolve gauss_normalvariate Rey rr zs) = Inr x
                \<and> (0 < x \<longleftrightarrow> - 5 < shd zs)))"
proof (intro conjI impI)
  assume "Rey \<le> 2000"
  with assms show
    "\<exists>x. fst (calculate_friction_factor fsolve normalvariate Rey rr g) = Inr x \<and> 0 < x"
    by (simp add: resolver_laminar py_div_def)
next
  assume "4000 \<le> Rey \<and> cb Rey rr (fsolve (cb Rey rr) 0.02) \<noteq> None"
  then show "\<exists>x. fst (calculate_friction_factor fsolve normalvariate Rey rr g) = Inr x \<and> 0 < x"
    using cb_defined_pos [of Rey rr "fsolve (cb Rey rr) 0.02"]
    by (simp add: resolver_turbulent)
next
  assume h: "2000 < Rey \<and> Rey < 4000 \<and> cb Rey rr (fsolve (cb Rey rr) 0.02) \<noteq> None"
  let ?mu = "mu_f (64 / Rey) (fsolve (cb Rey rr) 0.02) Rey"
  have "0 < fsolve (cb Rey rr) 0.02"
    using h by (intro cb_defined_pos [of Rey rr]) simp
  then show mu: "0 < ?mu"
    using h assms by (intro mu_f_pos) simp_all
  then have "0 < ?mu + shd zs * sigma_f ?mu \<longleftrightarrow> - 5 < shd zs"
    by (rule gauss_sample_pos)
  moreover have "fst (calculate_friction_factor fsolve gauss_normalvariate Rey rr zs)
      = Inr (?mu + shd zs * sigma_f ?mu)"
    using h by (simp add: resolver_transition gauss_normalvariate_def)
  ultimately show "\<exists>x. fst (calculate_friction_factor fsolve gauss_normalvariate Rey rr zs) = Inr x
              \<and> (0 < x \<longleftrightarrow> - 5 < shd zs)"
    by simp
qed

theorem friction_factor_sign_witness:
  "(0::real) < 2510
   \<and> cb 150600 0.00333 (stalling_solver (- 3.8) (1 / 36) (cb 150600 0.00333) 0.02) = Some 0
   \<and> cb 2510 0.0222 (stalling_solver (- 3.8) (1 / 16) (cb 2510 0.0222) 0.02) = Some 0
   \<and> (\<exists>x. fst (calculate_friction_factor (stalling_solver (- 3.8) (1 / 16)) gauss_normalvariate
                  1000 0.0222 (sconst 0)) = Inr x \<and> 0 < x)
   \<and> (\<exists>x. fst (calculate_friction_factor (stalling_solver (- 3.8) (1 / 36)) gauss_normalvariate
                  150600 0.00333 (sconst 0)) = Inr x \<and> 0 < x)
   \<and> 0 < mu_f (64 / 2510) (stalling_solver (- 3.8) (1 / 16) (cb 2510 0.0222) 0.02) 2510
   \<and> (\<exists>x. fst (calculate_friction_factor (stalling_solver (- 3.8) (1 / 16)) gauss_normalvariate
                  2510 0.0222 (sconst 0)) = Inr x \<and> 0 < x)
   \<and> (\<exists>x. fst (calculate_friction_factor (stalling_solver (- 3.8) (1 / 16)) gauss_normalvariate
                  2510 0.0222 (sconst (- 6))) = Inr x \<and> \<not> 0 < x)"
proof -
  have a: "cb 150600 0.00333 (stalling_solver (- 3.8) (1 / 36) (cb 150600 0.00333) 0.02) = Some 0"
    unfolding solver_at_150600 by (rule root_at_150600)
  have b: "cb 2510 0.0222 (stalling_solver (- 3.8) (1 / 16) (cb 2510 0.0222) 0.02) = Some 0"
    unfolding solver_at_2510 by (rule root_at_2510)
  show ?thesis
    using a b
      friction_factor_sign [of 1000 "stalling_solver (- 3.8) (1 / 16)" gauss_normalvariate
        "0.0222" "sconst 0" "sconst 0"]
      friction_factor_sign [of 150600 "stalling_solver (- 3.8) (1 / 36)" gauss_normalvariate
        "0.00333" "sconst 0" "sconst 0"]
      friction_factor_sign [of 2510 "stalling_solver (- 3.8) (1 / 16)" gauss_normalvariate
        "0.0222" "sconst 0" "sconst 0"]
      friction_factor_sign [of 2510 "stalling_solver (- 3.8) (1 / 16)" gauss_normalvariate
        "0.0222" "sconst 0" "sconst (- 6)"]
    by simp
qed

subsection \<open>The transition mean at the ends of the band\<close>

lemma mu_f_tendsto:
  fixes F :: "real \<Rightarrow> real" and a :: real
  assumes "(F \<longlongrightarrow> c) (at a within S)" and "a \<noteq> 0"
  shows "((\<lambda>Rey. mu_f (64 / Rey) (F Rey) Rey) \<longlongrightarrow> mu_f (64 / a) c a) (at a within S)"
  unfolding mu_f_def using assms by (intro tendsto_intros) simp_all

lemma mu_f_at_2000: "mu_f f_lam f_CB 2000 = f_lam"
  by (simp add: mu_f_def)

lemma mu_f_at_4000: "mu_f f_lam f_CB 4000 = f_CB"
  by (simp add: mu_f_def)

text \<open>
  Claim C8. The interpolated mean of the transition branch joins the two neighbouring
  regimes. Its weight \<open>(Rey - 2000) / 2000\<close> runs from 0 to 1 over the band: for a
  turbulent prediction \<open>f_turb\<close> the mean tends to the laminar value \<open>64 / 2000\<close> as
  \<open>Rey\<close> approaches \<open>2000\<close> from above and to \<open>f_turb\<close> as \<open>Rey\<close> approaches
  \<open>4000\<close> from below. At \<open>Rey = 2000\<close> the mean is \<open>64 / 2000\<close>, which is what the
  Resolver returns there, and at \<open>Rey = 4000\<close> it is the turbulent prediction of that
  Reynolds number, which is what the Resolver returns there. Inside the band, with the
  prediction the root-finder delivers at each \<open>Rey\<close>, the mean differs from the laminar
  value by the gap between the two predictions times \<open>(Rey - 2000) / 2000\<close>, and from the
  turbulent prediction by that gap times \<open>(4000 - Rey) / 2000\<close>.
\<close>

theorem transition_mean_boundary:
  "((\<lambda>Rey. mu_f (64 / Rey) f_turb Rey) \<longlongrightarrow> 64 / 2000) (at_right 2000)
   \<and> mu_f (64 / 2000) (fsolve (cb 2000 rr) 0.02) 2000 = 64 / 2000
   \<and> fst (calculate_friction_factor fsolve normalvariate 2000 rr g) = Inr (64 / 2000)
   \<and> ((\<lambda>Rey. mu_f (64 / Rey) f_turb Rey) \<longlongrightarrow> f_turb) (at_left 4000)
   \<and> mu_f (64 / 4000) (fsolve (cb 4000 rr) 0.02) 4000 = fsolve (cb 4000 rr) 0.02
   \<and> fst (calculate_friction_factor fsolve normalvariate 4000 rr g)
        = Inr (fsolve (cb 4000 rr) 0.02)
   \<and> mu_f (64 / Rey) (fsolve (cb Rey rr) 0.02) Rey - 64 / Rey
        = (fsolve (cb Rey rr) 0.02 - 64 / Rey) * ((Rey - 2000) / 2000)
   \<and> fsolve (cb Rey rr) 0.02 - mu_f (64 / Rey) (fsolve (cb Rey rr) 0.02) Rey
        = (fsolve (cb Rey rr) 0.02 - 64 / Rey) * ((4000 - Rey) / 2000)"
proof -
  have "((\<lambda>Rey::real. f_turb) \<longlongrightarrow> f_turb) (at_right 2000)"
    by (rule tendsto_const)
  then have "((\<lambda>Rey. mu_f (64 / Rey) f_turb Rey) \<longlongrightarrow> mu_f (64 / 2000) f_turb 2000)
      (at_right 2000)"
    by (rule mu_f_tendsto) simp
  then have lo: "((\<lambda>Rey. mu_f (64 / Rey) f_turb Rey) \<longlongrightarrow> 64 / 2000) (at_right 2000)"
    by (simp only: mu_f_at_2000)
  have "((\<lambda>Rey::real. f_turb) \<longlongrightarrow> f_turb) (at_left 4000)"
    by (rule tendsto_const)
  then have "((\<lambda>Rey. mu_f (64 / Rey) f_turb Rey) \<longlongrightarrow> mu_f (64 / 4000) f_turb 4000)
      (at_left 4000)"
    by (rule mu_f_tendsto) simp
  then have hi: "((\<lambda>Rey. mu_f (64 / Rey) f_turb Rey) \<longlongrightarrow> f_turb) (at_left 4000)"
    by (simp only: mu_f_at_4000)
  have r2: "fst (calculate_friction_factor fsolve normalvariate 2000 rr g) = Inr (64 / 2000)"
    by (simp add: resolver_laminar py_div_def)
  have r4: "fst (calculate_friction_factor fsolve normalvariate 4000 rr g)
      = Inr (fsolve (cb 4000 rr) 0.02)"
    by (simp add: resolver_turbulent)
  have d1: "mu_f (64 / Rey) (fsolve (cb Rey rr) 0.02) Rey - 64 / Rey
        = (fsolve (cb Rey rr) 0.02 - 64 / Rey) * ((Rey - 2000) / 2000)"
    by (simp add: mu_f_def)
  have d2: "fsolve (cb Rey rr) 0.02 - mu_f (64 / Rey) (fsolve (cb Rey rr) 0.02) Rey
        = (fsolve (cb Rey rr) 0.02 - 64 / Rey) * ((4000 - Rey) / 2000)"
    unfolding mu_f_def by (simp add: algebra_simps diff_divide_distrib)
  show ?thesis
    using lo hi r2 r4 d1 d2 by (simp only: mu_f_at_2000 mu_f_at_4000 simp_thms)
qed

section \<open>Exact roots of the Colebrook residual\<close>

text \<open>
  The facts of this section are about numbers \<open>f\<close> at which the residual \<open>cb\<close> is
  exactly zero. For a positive Reynolds number the residual falls strictly when \<open>f\<close> grows
  and the roughness does not, so an exact root is unique and does not decrease when the
  roughness grows. Which number the library root-finder returns for a given residual is
  not part of the repository; the last section turns to inputs at which it hands its
  start value back.
\<close>

lemma cb_SomeD:
  assumes "cb Rey rr f = Some r"
  shows "0 < f" and "Rey \<noteq> 0" and "0 < rr / 3.7 + 2.51 / (Rey * sqrt f)"
    and "r = 1 / sqrt f + 2.0 * log 10 (rr / 3.7 + 2.51 / (Rey * sqrt f))"
  using assms by (auto simp: cb_def split: if_splits)

lemma cb_strict_antimono:
  assumes "0 < Rey" and "rr1 \<le> rr2" and "f2 < f1"
    and "cb Rey rr1 f1 = Some r1" and "cb Rey rr2 f2 = Some r2"
  shows "r1 < r2"
proof -
  note d1 = cb_SomeD [OF assms(4)] and d2 = cb_SomeD [OF assms(5)]
  have s: "0 < sqrt f2" "sqrt f2 < sqrt f1"
    using d2(1) assms(3) by simp_all
  have inv: "1 / sqrt f1 < 1 / sqrt f2"
    using s by (simp add: field_simps)
  have "2.51 / (Rey * sqrt f1) < 2.51 / (Rey * sqrt f2)"
    using s assms(1) by (simp add: field_simps)
  moreover have "rr1 / 3.7 \<le> rr2 / 3.7"
    using assms(2) by simp
  ultimately have "rr1 / 3.7 + 2.51 / (Rey * sqrt f1) < rr2 / 3.7 + 2.51 / (Rey * sqrt f2)"
    by linarith
  then have "log 10 (rr1 / 3.7 + 2.51 / (Rey * sqrt f1))
      < log 10 (rr2 / 3.7 + 2.51 / (Rey * sqrt f2))"
    using d1(3) d2(3) by simp
  with inv show ?thesis
    unfolding d1(4) d2(4) by simp
qed

lemma colebrook_root_mono:
  assumes "0 < Rey" and "rr1 \<le> rr2"
    and "cb Rey rr1 f1 = Some 0" and "cb Rey rr2 f2 = Some 0"
  shows "f1 \<le> f2"
proof (rule ccontr)
  assume "\<not> f1 \<le> f2"
  then have "f2 < f1" by simp
  from cb_strict_antimono [OF assms(1,2) this assms(3,4)] show False by simp
qed

section \<open>Properties of the Moody Sampler\<close>


lemma list_comp_Inr:
  assumes "\<And>x. x \<in> set xs \<Longrightarrow> f x = Inr (h x)"
  shows "list_comp f xs = Inr (map h xs)"
  using assms by (induction xs) simp_all

lemma length_logspace: "length (logspace a b n) = n"
  by (simp add: logspace_def linspace_def)

lemma logspace_pos: "x \<in> set (logspace a b n) \<Longrightarrow> 0 < x"
  by (auto simp: logspace_def linspace_def)

lemma logspace_nth:
  "i < n \<Longrightarrow> logspace a b n ! i = 10 powr (a + real i * ((b - a) / real (n - 1)))"
  by (simp add: logspace_def linspace_def)

lemma logspace_hd: "0 < n \<Longrightarrow> hd (logspace a b n) = 10 powr a"
  by (simp add: hd_conv_nth length_logspace logspace_nth flip: length_0_conv)

lemma logspace_last: "1 < n \<Longrightarrow> last (logspace a b n) = 10 powr b"
proof -
  assume n: "1 < n"
  then have "logspace a b n \<noteq> []"
    using length_logspace [of a b n] by auto
  then have "last (logspace a b n) = logspace a b n ! (n - 1)"
    by (simp add: last_conv_nth length_logspace)
  also have "\<dots> = 10 powr (a + real (n - 1) * ((b - a) / real (n - 1)))"
    using n by (simp add: logspace_nth)
  also have "a + real (n - 1) * ((b - a) / real (n - 1)) = b"
    using n by simp
  finally show ?thesis .
qed

lemma logspace_ratio:
  "Suc i < n \<Longrightarrow>
   logspace a b n ! Suc i = logspace a b n ! i * 10 powr ((b - a) / real (n - 1))"
proof -
  assume i: "Suc i < n"
  let ?s = "(b - a) / real (n - 1)"
  have "a + real (Suc i) * ?s = (a + real i * ?s) + ?s"
    by (simp only: of_nat_Suc distrib_right mult_1 add.assoc add.commute [of "?s"])
  then have "logspace a b n ! Suc i = 10 powr ((a + real i * ?s) + ?s)"
    using i by (simp only: logspace_nth)
  also have "\<dots> = 10 powr (a + real i * ?s) * 10 powr ?s"
    by (rule powr_add)
  also have "10 powr (a + real i * ?s) = logspace a b n ! i"
    using i by (simp add: logspace_nth)
  finally show ?thesis .
qed

lemma series_laminar:
  "list_comp (\<lambda>Rey. ff fsolve Rey 0 False) (logspace a b n)
     = Inr (map (\<lambda>Rey. 64 / Rey) (logspace a b n))"
proof (rule list_comp_Inr)
  fix x assume "x \<in> set (logspace a b n)"
  then have "x \<noteq> 0" using logspace_pos [of x a b n] by simp
  then show "ff fsolve x 0 False = Inr (64 / x)"
    by (simp add: ff_def py_div_def)
qed

lemma series_turbulent:
  "list_comp (\<lambda>relRough. list_comp (\<lambda>Rey. ff fsolve Rey relRough True) ReValsCB) rrVals
     = Inr (map (\<lambda>relRough. map (\<lambda>Rey. fsolve (cb Rey relRough) 0.02) ReValsCB) rrVals)"
  by (intro list_comp_Inr) (simp add: ff_turbulent)

lemma plotMoody_series_eq:
  "plotMoody_series fsolve =
     Inr \<lparr>ffLam = map (\<lambda>Rey. 64 / Rey) ReValsL,
          ffTrans = map (\<lambda>Rey. 64 / Rey) ReValsTrans,
          ffCB = map (\<lambda>relRough. map (\<lambda>Rey. fsolve (cb Rey relRough) 0.02) ReValsCB) rrVals\<rparr>"
  unfolding plotMoody_series_def series_turbulent
  by (simp add: ReValsL_def ReValsTrans_def series_laminar)

lemma grid_lengths:
  "length ReValsL = 20 \<and> length ReValsTrans = 20 \<and> length ReValsCB = 100 \<and> length rrVals = 20"
  by (simp add: ReValsL_def ReValsTrans_def ReValsCB_def length_logspace rrVals_def)

lemma grid_ends:
  "hd ReValsL = 600 \<and> last ReValsL = 2000 \<and> hd ReValsTrans = 2000 \<and> last ReValsTrans = 4000
   \<and> hd ReValsCB = 4000 \<and> last ReValsCB = 100000000"
  by (simp add: ReValsL_def ReValsTrans_def ReValsCB_def logspace_hd logspace_last)

lemma rrVals_ordered: "hd rrVals = 0 \<and> last rrVals = 0.05 \<and> sorted rrVals \<and> distinct rrVals"
  by (simp add: rrVals_def)

lemma series_entries:
  "map (\<lambda>Rey. ff fsolve Rey 0 False) (ReValsL @ ReValsTrans)
     = map (\<lambda>Rey. Inr (64 / Rey)) (ReValsL @ ReValsTrans)
   \<and> map (\<lambda>relRough. map (\<lambda>Rey. ff fsolve Rey relRough True) ReValsCB) rrVals
     = map (\<lambda>relRough. map (\<lambda>Rey. Inr (fsolve (cb Rey relRough) 0.02)) ReValsCB) rrVals"
proof
  have "ff fsolve x 0 False = Inr (64 / x)" if "x \<in> set (ReValsL @ ReValsTrans)" for x
  proof -
    from that have "0 < x"
      by (auto simp: ReValsL_def ReValsTrans_def dest: logspace_pos)
    then show ?thesis by (simp add: ff_def py_div_def)
  qed
  then show "map (\<lambda>Rey. ff fsolve Rey 0 False) (ReValsL @ ReValsTrans)
     = map (\<lambda>Rey. Inr (64 / Rey)) (ReValsL @ ReValsTrans)"
    by (intro map_cong refl)
  show "map (\<lambda>relRough. map (\<lambda>Rey. ff fsolve Rey relRough True) ReValsCB) rrVals
     = map (\<lambda>relRough. map (\<lambda>Rey. Inr (fsolve (cb Rey relRough) 0.02)) ReValsCB) rrVals"
    by (simp add: ff_turbulent)
qed

lemma ReValsCB_ratio:
  "Suc i < 100 \<Longrightarrow>
   ReValsCB ! Suc i = ReValsCB ! i * 10 powr ((log 10 100000000 - log 10 4000) / 99)"
  using logspace_ratio [of i 100 "log 10 4000" "log 10 100000000"]
  by (simp add: ReValsCB_def)

text \<open>
  Claim C9. The Moody Sampler calls the Resolver with the laminar regime forced, at
  roughness \<open>0\<close>, once for every entry of its laminar and of its transition sequence of
  Reynolds numbers (20 entries each, from 600 to 2000 and from 2000 to 4000); these calls
  go to \<open>ff\<close>, which has no access to the random generator, and give \<open>64 / Rey\<close>. It
  calls the Resolver with the turbulent regime forced once for every pair of the cross
  product of its roughness sequence (20 increasing values from 0 to 0.05) and its
  turbulent sequence (100 log-spaced values from 4000 to \<open>10\<^sup>8\<close>), and gets one curve
  of 100 points for each roughness value, in the order of the roughness sequence.
\<close>

theorem moody_sampler_grid:
  "plotMoody_series fsolve =
     Inr \<lparr>ffLam = map (\<lambda>Rey. 64 / Rey) ReValsL,
          ffTrans = map (\<lambda>Rey. 64 / Rey) ReValsTrans,
          ffCB = map (\<lambda>relRough. map (\<lambda>Rey. fsolve (cb Rey relRough) 0.02) ReValsCB) rrVals\<rparr>
   \<and> map (\<lambda>Rey. ff fsolve Rey 0 False) (ReValsL @ ReValsTrans)
       = map (\<lambda>Rey. Inr (64 / Rey)) (ReValsL @ ReValsTrans)
   \<and> map (\<lambda>relRough. map (\<lambda>Rey. ff fsolve Rey relRough True) ReValsCB) rrVals
       = map (\<lambda>relRough. map (\<lambda>Rey. Inr (fsolve (cb Rey relRough) 0.02)) ReValsCB) rrVals
   \<and> length ReValsL = 20 \<and> length ReValsTrans = 20 \<and> length ReValsCB = 100
   \<and> length rrVals = 20
   \<and> hd ReValsL = 600 \<and> last ReValsL = 2000 \<and> hd ReValsTrans = 2000 \<and> last ReValsTrans = 4000
   \<and> hd ReValsCB = 4000 \<and> last ReValsCB = 100000000
   \<and> (\<forall>i. Suc i < 100 \<longrightarrow>
         ReValsCB ! Suc i = ReValsCB ! i * 10 powr ((log 10 100000000 - log 10 4000) / 99))
   \<and> hd rrVals = 0 \<and> last rrVals = 0.05 \<and> sorted rrVals \<and> distinct rrVals"
  using plotMoody_series_eq [of fsolve] series_entries [of fsolve] grid_lengths grid_ends
    ReValsCB_ratio rrVals_ordered
  by blast

theorem moody_sampler_grid_witness:
  "plotMoody_series seed_solver =
     Inr \<lparr>ffLam = map (\<lambda>Rey. 64 / Rey) ReValsL,
          ffTrans = map (\<lambda>Rey. 64 / Rey) ReValsTrans,
          ffCB = map (\<lambda>relRough. map (\<lambda>Rey. 0.02) ReValsCB) rrVals\<rparr>
   \<and> ReValsCB ! Suc 0 = ReValsCB ! 0 * 10 powr ((log 10 100000000 - log 10 4000) / 99)"
  using moody_sampler_grid [of seed_solver]
  by (simp add: seed_solver_def)

section \<open>Where the root-finder does not leave its start value\<close>

text \<open>
  For a smooth pipe at a high Reynolds number the Colebrook root lies well below the
  start value \<open>0.02\<close> that \<open>ff\<close> passes to the root-finder, and the residual at
  \<open>0.02\<close> is far below zero. The first step of the library root-finder from \<open>0.02\<close>
  then ends at a negative number, where the residual has no value, and the root-finder
  hands the start value back; \<open>ff\<close> returns it as the friction factor.
\<close>

text \<open>
  Claim C1 says that for every turbulent input the returned friction factor satisfies the
  Colebrook equation to within \<open>1 / 10\<^sup>6\<close>. At \<open>Rey = 10\<^sup>8\<close>, \<open>rr = 0\<close>, the last Reynolds
  number and the first roughness of the Moody Sampler's own grid, the start value \<open>0.02\<close>
  comes back and is returned, and the residual there is not within \<open>1 / 10\<^sup>6\<close> of zero
  (it is \<open>-4\<close> or less).
\<close>

theorem colebrook_residual_violated:
  "last ReValsCB = 100000000 \<and> hd rrVals = 0
   \<and> ff seed_solver (last ReValsCB) (hd rrVals) True = Inr 0.02
   \<and> fst (calculate_friction_factor seed_solver gauss_normalvariate 100000000 0 (sconst 0))
       = Inr 0.02
   \<and> cb 100000000 0 0.02
       = Some (1 / sqrt 0.02 + 2.0 * log 10 (0 / 3.7 + 2.51 / (100000000 * sqrt 0.02)))
   \<and> \<not> \<bar>1 / sqrt (0.02::real) + 2.0 * log 10 (0 / 3.7 + 2.51 / (100000000 * sqrt 0.02))\<bar>
         < 1 / 10 ^ 6"
proof -
  have g: "last ReValsCB = 100000000" "hd rrVals = 0"
    using grid_ends rrVals_ordered by simp_all
  have "ff seed_solver (last ReValsCB) (hd rrVals) True = Inr 0.02"
    by (simp add: ff_def seed_solver_def)
  moreover have
    "fst (calculate_friction_factor seed_solver gauss_normalvariate 100000000 0 (sconst 0))
       = Inr 0.02"
    by (simp add: resolver_turbulent seed_solver_def)
  moreover have e: "cb 100000000 0 0.02
      = Some (1 / sqrt 0.02 + 2.0 * log 10 (0 / 3.7 + 2.51 / (100000000 * sqrt 0.02)))"
    by (simp add: cb_def)
  moreover have
    "\<not> \<bar>1 / sqrt (0.02::real) + 2.0 * log 10 (0 / 3.7 + 2.51 / (100000000 * sqrt 0.02))\<bar>
         < 1 / 10 ^ 6"
  proof -
    from e seed_residual_1e8 have
      "1 / sqrt (0.02::real) + 2.0 * log 10 (0 / 3.7 + 2.51 / (100000000 * sqrt 0.02)) \<le> - 4"
      by auto
    then show ?thesis by simp
  qed
  ultimately show ?thesis using g by blast
qed

text \<open>
  At \<open>Rey = 10\<^sup>7\<close> and roughness \<open>0.00001\<close> the residual at the start value is
  \<open>-2\<close> or less, and the residual falls when \<open>f\<close> grows: every number at which the
  residual is above \<open>-2\<close>, so every approximate root, lies below \<open>0.02\<close>.
\<close>

lemma converged_below_seed:
  assumes "cb 10000000 0.00001 f = Some r" and "- 2 < r"
  shows "f < 0.02"
proof (rule ccontr)
  assume "\<not> f < 0.02"
  then have f: "0.02 \<le> f" by simp
  obtain r0 where r0: "cb 10000000 0.00001 0.02 = Some r0" "r0 \<le> - 2"
    using seed_residual_1e7_rough by blast
  show False
  proof (cases "f = 0.02")
    case True
    with assms r0 show False by simp
  next
    case False
    with f have "0.02 < f" by simp
    from cb_strict_antimono [OF _ _ this assms(1) r0(1)] have "r < r0" by simp
    with assms(2) r0(2) show False by simp
  qed
qed

lemma solver_at_1e7_smooth:
  "stalling_solver (- 3.8) 0.008996 (cb 10000000 0.000001) 0.02 = 0.02"
proof -
  obtain r where "cb 10000000 0.000001 0.02 = Some r" "r < - 3.8"
    using seed_residual_1e7_smooth by blast
  then show ?thesis
    by (rule stalling_solver_stalls)
qed

lemma solver_at_1e7_rough:
  "stalling_solver (- 3.8) 0.008996 (cb 10000000 0.00001) 0.02 = 0.008996"
proof -
  obtain r where "cb 10000000 0.00001 0.02 = Some r" "- 3.8 \<le> r"
    using seed_residual_1e7_rough by blast
  then show ?thesis
    by (rule stalling_solver_delivers)
qed

text \<open>
  Claim C7 says that for a fixed \<open>Rey \<ge> 4000\<close> the returned friction factor does not
  decrease when the roughness grows. At \<open>Rey = 10\<^sup>7\<close> the start value \<open>0.02\<close> comes
  back for the roughness \<open>0.000001\<close>, while for the roughness \<open>0.00001\<close> the root-finder
  reaches the root, \<open>0.008996\<close> to four digits: the returned friction factor falls from
  \<open>0.02\<close> to \<open>0.008996\<close> although the roughness has grown.
\<close>

theorem roughness_monotonicity_violated:
  "(0.000001::real) \<le> 0.00001
   \<and> cb 10000000 0.000001 0.02 \<noteq> Some 0
   \<and> fst (calculate_friction_factor (stalling_solver (- 3.8) 0.008996) gauss_normalvariate
            10000000 0.000001 (sconst 0)) = Inr 0.02
   \<and> fst (calculate_friction_factor (stalling_solver (- 3.8) 0.008996) gauss_normalvariate
            10000000 0.00001 (sconst 0)) = Inr 0.008996
   \<and> \<not> (0.02::real) \<le> 0.008996"
proof -
  have "fst (calculate_friction_factor (stalling_solver (- 3.8) 0.008996) gauss_normalvariate
            10000000 0.000001 (sconst 0)) = Inr 0.02"
    unfolding resolver_turbulent [of 10000000, simplified]
    using solver_at_1e7_smooth by simp
  moreover have
    "fst (calculate_friction_factor (stalling_solver (- 3.8) 0.008996) gauss_normalvariate
            10000000 0.00001 (sconst 0)) = Inr 0.008996"
    unfolding resolver_turbulent [of 10000000, simplified]
    using solver_at_1e7_rough by simp
  moreover have "cb 10000000 0.000001 0.02 \<noteq> Some 0"
    using seed_residual_1e7_smooth by auto
  ultimately show ?thesis by simp
qed

end
